theory Spec2Isabelle
  imports Main "HOL-Library.Sublist"
begin

section \<open>Data model of the extension's background engine\<close>

text \<open>
  The model follows \<^verbatim>\<open>src/background.js\<close>, class \<^verbatim>\<open>FocusCoinEngine\<close>.
  JavaScript numbers that the engine handles are whole numbers (millisecond clock
  readings, coin counts, tab ids); they are modelled as \<^typ>\<open>int\<close>.
  \<^verbatim>\<open>Math.floor(a / b)\<close> on such numbers with \<^verbatim>\<open>b = 5000\<close> is
  \<^term>\<open>a div b\<close> on \<^typ>\<open>int\<close>, which rounds towards minus infinity as well.
\<close>

datatype site_type = Productive | Distracting | Neutral

datatype action = Focus | Distract

text \<open>
  The object pushed on \<^verbatim>\<open>heartbeatBuffer\<close>: the fields that
  \<^verbatim>\<open>updateCoins\<close> passes, and the \<^verbatim>\<open>sessionId\<close> that
  \<^verbatim>\<open>addHeartbeat\<close> adds.
\<close>

record heartbeat_data =
  timestamp :: int
  site :: string
  siteType :: site_type
  action :: action
  coinsChange :: int
  tabId :: int
  url :: string

record heartbeat = heartbeat_data +
  hb_sessionId :: "string option"

text \<open>The fields of the class that the modelled methods read or write.\<close>

record engine =
  isSessionActive :: bool
  currentTabId :: "int option"
  lastUpdateTime :: int
  sessionId :: "string option"
  uuid :: "string option"
  heartbeatBuffer :: "heartbeat list"

text \<open>
  The constructor sets these once and nothing reassigns them.
\<close>

definition coinUpdateInterval :: int where
  "coinUpdateInterval = 5000"

definition maxBufferSize :: nat where
  "maxBufferSize = 10"

definition productiveSites :: "string list" where
  "productiveSites =
     [''github.com'', ''stackoverflow.com'', ''wikipedia.org'', ''leetcode.com'',
      ''coursera.org'', ''udemy.com'', ''edx.org'', ''khanacademy.org'',
      ''developer.mozilla.org'', ''w3schools.com'', ''freecodecamp.org'']"

definition distractingSites :: "string list" where
  "distractingSites =
     [''youtube.com'', ''instagram.com'', ''twitter.com'', ''facebook.com'',
      ''reddit.com'', ''tiktok.com'', ''netflix.com'', ''twitch.tv'',
      ''discord.com'', ''whatsapp.com'']"

text \<open>The state the constructor leaves, \<open>t\<close> being its reading of the clock.\<close>

definition new_engine :: "int \<Rightarrow> engine" where
  "new_engine t =
     \<lparr>isSessionActive = False, currentTabId = None, lastUpdateTime = t,
      sessionId = None, uuid = None, heartbeatBuffer = []\<rparr>"

text \<open>
  The two keys of \<^verbatim>\<open>chrome.storage.local\<close> that \<^verbatim>\<open>updateCoins\<close> reads
  and writes; \<open>None\<close> is a key that is not set. Reads and writes of the store are
  taken to succeed.
\<close>

record storage =
  focusCoins :: "int option"
  todayCoins :: "int option"

text \<open>\<^verbatim>\<open>x || 0\<close> on a stored number: an unset key and 0 both read as 0.\<close>

definition or_zero :: "int option \<Rightarrow> int" where
  "or_zero x = (case x of None \<Rightarrow> 0 | Some n \<Rightarrow> n)"

text \<open>The tab object, as far as the engine reads it.\<close>

record tab =
  tab_id :: int
  tab_url :: "string option"

text \<open>
  What the platform hands to one run of \<^verbatim>\<open>updateCoins\<close>: the first tab of
  \<^verbatim>\<open>chrome.tabs.query\<close> (if any), the \<^verbatim>\<open>hostname\<close> of
  \<^verbatim>\<open>new URL(tab.url)\<close> (\<open>None\<close> when the constructor throws, which the
  method's \<^verbatim>\<open>try\<close> swallows), and \<^verbatim>\<open>Date.now()\<close>. The URL parser is the
  platform's and is not modelled; it is the parser that drops the scheme.
\<close>

record env =
  active_tab :: "tab option"
  url_hostname :: "string option"
  clock :: int

text \<open>
  What \<^verbatim>\<open>apiCall\<close> gives back to \<^verbatim>\<open>syncHeartbeats\<close>. The HTTP status is
  never inspected by \<^verbatim>\<open>apiCall\<close>: only the parsed body is returned.
\<close>

datatype api_reply =
    Rejected    \<comment> \<open>\<^verbatim>\<open>fetch\<close> rejected or the body was not JSON: \<^verbatim>\<open>apiCall\<close> rethrows\<close>
  | Json_null   \<comment> \<open>the body is \<^verbatim>\<open>null\<close>: reading \<^verbatim>\<open>response.success\<close> throws\<close>
  | Json bool   \<comment> \<open>any other body, with the truthiness of \<^verbatim>\<open>response.success\<close>\<close>

text \<open>The calls the engine makes on the outside world.\<close>

datatype effect =
    BlockSite int string
      \<comment> \<open>\<^verbatim>\<open>chrome.tabs.update(tab.id, {url: blocked.html?site=domain})\<close>\<close>
  | PostHeartbeats "string option" "heartbeat list"
      \<comment> \<open>\<^verbatim>\<open>POST /sessions/heartbeats {uuid, heartbeats}\<close>\<close>
  | CoinsUpdated int int site_type string
      \<comment> \<open>\<^verbatim>\<open>chrome.runtime.sendMessage({action: 'coinsUpdated', coins, change, siteType, domain})\<close>\<close>

section \<open>String primitives\<close>

text \<open>\<^verbatim>\<open>Array.prototype.some\<close>.\<close>

fun some :: "('a \<Rightarrow> bool) \<Rightarrow> 'a list \<Rightarrow> bool" where
  "some p [] = False"
| "some p (x # xs) = (p x \<or> some p xs)"

text \<open>\<^verbatim>\<open>s.includes(pat)\<close>: does \<open>pat\<close> occur in \<open>s\<close> at some position.\<close>

fun str_includes :: "string \<Rightarrow> string \<Rightarrow> bool" where
  "str_includes [] pat = (pat = [])"
| "str_includes (c # cs) pat = (prefix pat (c # cs) \<or> str_includes cs pat)"

text \<open>
  \<^verbatim>\<open>s.replace(pat, rep)\<close> with a string pattern: only the first occurrence of
  \<open>pat\<close> is replaced, wherever it is; without an occurrence \<open>s\<close> is returned.
\<close>

fun replace :: "string \<Rightarrow> string \<Rightarrow> string \<Rightarrow> string" where
  "replace pat rep [] = (if pat = [] then rep else [])"
| "replace pat rep (c # cs) =
     (if prefix pat (c # cs) then rep @ drop (length pat) (c # cs)
      else c # replace pat rep cs)"

section \<open>The engine's methods\<close>

text \<open>\<^verbatim>\<open>getSiteType\<close>, with the two lists of the engine as parameters.\<close>

definition getSiteType :: "string list \<Rightarrow> string list \<Rightarrow> string \<Rightarrow> site_type" where
  "getSiteType productive distracting domain =
     (if some (\<lambda>site. str_includes domain site) productive then Productive
      else if some (\<lambda>site. str_includes domain site) distracting then Distracting
      else Neutral)"

text \<open>\<^verbatim>\<open>blockSite\<close>: one navigation of the tab; a failure of it is logged and dropped.\<close>

definition blockSite :: "tab \<Rightarrow> string \<Rightarrow> effect list" where
  "blockSite t domain = [BlockSite (tab_id t) domain]"

text \<open>
  \<^verbatim>\<open>syncHeartbeats\<close> runs in two parts. Up to its \<^verbatim>\<open>await\<close> it posts the whole
  buffer unless the buffer is empty (\<open>syncHeartbeats_send\<close>). When the reply arrives
  the buffer is cleared if the reply reports success, and kept otherwise
  (\<open>syncHeartbeats_settle\<close>). \<open>syncHeartbeats\<close> is the whole method with no other
  handler running between the two parts.
\<close>

definition syncHeartbeats_send :: "engine \<Rightarrow> effect list" where
  "syncHeartbeats_send e =
     (if heartbeatBuffer e = [] then []
      else [PostHeartbeats (uuid e) (heartbeatBuffer e)])"

definition syncHeartbeats_settle :: "api_reply \<Rightarrow> engine \<Rightarrow> engine" where
  "syncHeartbeats_settle r e =
     (case r of
        Json ok \<Rightarrow> if ok then e\<lparr>heartbeatBuffer := []\<rparr> else e
      | Json_null \<Rightarrow> e
      | Rejected \<Rightarrow> e)"

definition syncHeartbeats :: "api_reply \<Rightarrow> engine \<Rightarrow> engine \<times> effect list" where
  "syncHeartbeats r e =
     (if heartbeatBuffer e = [] then (e, [])
      else (syncHeartbeats_settle r e, syncHeartbeats_send e))"

text \<open>
  \<^verbatim>\<open>addHeartbeat\<close>: push, then start a sync when the buffer has reached
  \<^verbatim>\<open>maxBufferSize\<close>. The sync is not awaited, so only its first part belongs to
  this call; its reply is a later event.
\<close>

definition addHeartbeat :: "heartbeat_data \<Rightarrow> engine \<Rightarrow> engine \<times> effect list" where
  "addHeartbeat d e =
     (let e' = e\<lparr>heartbeatBuffer := heartbeatBuffer e @
                  [\<lparr>timestamp = timestamp d, site = site d, siteType = siteType d,
                    action = action d, coinsChange = coinsChange d, tabId = tabId d,
                    url = url d, hb_sessionId = sessionId e\<rparr>]\<rparr>
      in (e', if length (heartbeatBuffer e') \<ge> maxBufferSize
              then syncHeartbeats_send e' else []))"

text \<open>
  The tail of \<^verbatim>\<open>updateCoins\<close> after the coin change is computed (lines 212 to 242):
  save the two counters, add the heartbeat, notify the popup, move
  \<^verbatim>\<open>lastUpdateTime\<close>.
\<close>

definition save_and_report ::
  "tab \<Rightarrow> string \<Rightarrow> string \<Rightarrow> site_type \<Rightarrow> int \<Rightarrow> int \<Rightarrow> int \<Rightarrow> int \<Rightarrow>
   engine \<Rightarrow> storage \<Rightarrow> engine \<times> storage \<times> effect list" where
  "save_and_report t u domain ty now coinChange currentCoins today e st =
     (let st' = st\<lparr>focusCoins := Some currentCoins, todayCoins := Some today\<rparr>;
          (e', posted) = addHeartbeat
             \<lparr>timestamp = now, site = domain, siteType = ty,
              action = (if ty = Productive then Focus else Distract),
              coinsChange = coinChange, tabId = tab_id t, url = u\<rparr> e
      in (e'\<lparr>lastUpdateTime := now\<rparr>, st',
          posted @ [CoinsUpdated currentCoins coinChange ty domain]))"

definition updateCoins :: "env \<Rightarrow> engine \<Rightarrow> storage \<Rightarrow> engine \<times> storage \<times> effect list" where
  "updateCoins v e st =
     (if \<not> isSessionActive e then (e, st, [])
      else case active_tab v of
        None \<Rightarrow> (e, st, [])
      | Some t \<Rightarrow>
         (case tab_url t of
            None \<Rightarrow> (e, st, [])
          | Some u \<Rightarrow>
             if u = [] then (e, st, [])
             else case url_hostname v of
               None \<Rightarrow> (e, st, [])
             | Some hostname \<Rightarrow>
                (let domain = replace ''www.'' '''' hostname;
                     ty = getSiteType productiveSites distractingSites domain
                 in if ty = Neutral then (e, st, [])
                    else
                      let currentCoins = or_zero (focusCoins st);
                          today = or_zero (todayCoins st);
                          now = clock v;
                          timeDiff = now - lastUpdateTime e;
                          intervalsElapsed = timeDiff div coinUpdateInterval
                      in if intervalsElapsed > 0 then
                           (if ty = Productive then
                              let coinChange = intervalsElapsed * 3
                              in save_and_report t u domain ty now coinChange
                                   (currentCoins + coinChange) (today + coinChange) e st
                            else if ty = Distracting then
                              let coinChange = intervalsElapsed * (- 4)
                              in if currentCoins > 0 then
                                   save_and_report t u domain ty now coinChange
                                     (max 0 (currentCoins + coinChange)) today e st
                                 else (e, st, blockSite t domain)
                            else save_and_report t u domain ty now 0 currentCoins today e st)
                         else (e, st, []))))"

text \<open>
  \<^verbatim>\<open>handleTabChange\<close>: \<open>t0\<close> is the clock when the handler starts, the
  environment is what the \<^verbatim>\<open>updateCoins\<close> it calls then sees.
\<close>

definition handleTabChange ::
  "int \<Rightarrow> env \<Rightarrow> engine \<Rightarrow> storage \<Rightarrow> engine \<times> storage \<times> effect list" where
  "handleTabChange t0 v e st =
     (if \<not> isSessionActive e then (e, st, [])
      else updateCoins v (e\<lparr>lastUpdateTime := t0\<rparr>) st)"

text \<open>
  The events that drive the engine while it runs: the coin timer, a tab change, the
  sync timer, and the arrival of a reply to a posted batch. Each handler is run to its
  end before the next event; a reply may arrive any number of events after its post.
\<close>

datatype event =
    Tick env
  | TabChange int env
  | SyncTimer
  | Reply api_reply

fun step :: "event \<Rightarrow> engine \<times> storage \<Rightarrow> (engine \<times> storage) \<times> effect list" where
  "step (Tick v) (e, st) = (case updateCoins v e st of (e', st', fx) \<Rightarrow> ((e', st'), fx))"
| "step (TabChange t0 v) (e, st) =
     (case handleTabChange t0 v e st of (e', st', fx) \<Rightarrow> ((e', st'), fx))"
| "step SyncTimer (e, st) = ((e, st), syncHeartbeats_send e)"
| "step (Reply r) (e, st) = ((syncHeartbeats_settle r e, st), [])"

fun run :: "event list \<Rightarrow> engine \<times> storage \<Rightarrow> (engine \<times> storage) \<times> effect list" where
  "run [] s = (s, [])"
| "run (ev # evs) s =
     (case step ev s of (s', fx) \<Rightarrow>
        (case run evs s' of (s'', fx') \<Rightarrow> (s'', fx @ fx')))"

text \<open>The balance as the popup reads it (\<^verbatim>\<open>result.focusCoins || 0\<close>).\<close>

definition balance :: "storage \<Rightarrow> int" where
  "balance st = or_zero (focusCoins st)"

definition earnedToday :: "storage \<Rightarrow> int" where
  "earnedToday st = or_zero (todayCoins st)"

section \<open>Vocabulary for the properties\<close>

text \<open>
  What one run of \<^verbatim>\<open>updateCoins\<close> sees, read off its guards: the domain it
  computes from the active tab (none when there is no tab, no URL, or the URL does not
  parse), the type of that domain, and the number of whole intervals since
  \<^verbatim>\<open>lastUpdateTime\<close>. The last two functions pick the navigations and the posted
  batches out of a list of effects.
\<close>

definition observedDomain :: "env \<Rightarrow> string option" where
  "observedDomain v =
     (case active_tab v of
        None \<Rightarrow> None
      | Some t \<Rightarrow>
         (case tab_url t of
            None \<Rightarrow> None
          | Some u \<Rightarrow>
             if u = [] then None
             else map_option (replace ''www.'' '''') (url_hostname v)))"

definition observedSiteType :: "env \<Rightarrow> site_type option" where
  "observedSiteType v =
     map_option (getSiteType productiveSites distractingSites) (observedDomain v)"

definition elapsedTicks :: "env \<Rightarrow> engine \<Rightarrow> int" where
  "elapsedTicks v e = (clock v - lastUpdateTime e) div coinUpdateInterval"

fun blocked :: "effect list \<Rightarrow> (int \<times> string) list" where
  "blocked [] = []"
| "blocked (BlockSite i d # fx) = (i, d) # blocked fx"
| "blocked (_ # fx) = blocked fx"

fun posted :: "effect list \<Rightarrow> heartbeat list list" where
  "posted [] = []"
| "posted (PostHeartbeats u b # fx) = b # posted fx"
| "posted (_ # fx) = posted fx"

section \<open>Example inputs\<close>

text \<open>
  An engine with a running session, a tab on a given page, the environment of an
  evaluation at a given time, and a store holding a given balance.
\<close>

definition sample_engine :: engine where
  "sample_engine =
     (new_engine 0)\<lparr>isSessionActive := True, sessionId := Some ''session-1'',
                     uuid := Some ''uuid-1''\<rparr>"

definition sample_tab :: "string \<Rightarrow> tab" where
  "sample_tab u = \<lparr>tab_id = 7, tab_url = Some u\<rparr>"

definition visit :: "string \<Rightarrow> string \<Rightarrow> int \<Rightarrow> env" where
  "visit u h t = \<lparr>active_tab = Some (sample_tab u), url_hostname = Some h, clock = t\<rparr>"

definition youtube_at :: "int \<Rightarrow> env" where
  "youtube_at t = visit ''https://www.youtube.com/watch'' ''www.youtube.com'' t"

definition github_at :: "int \<Rightarrow> env" where
  "github_at t = visit ''https://github.com/'' ''github.com'' t"

definition coins :: "int \<Rightarrow> storage" where
  "coins n = \<lparr>focusCoins = Some n, todayCoins = Some 0\<rparr>"

text \<open>
  Ten evaluations on GitHub five seconds apart, the tenth of which posts the buffer; the
  post fails; one more evaluation follows.
\<close>

definition failed_flush_run :: "event list" where
  "failed_flush_run =
     map (\<lambda>n. Tick (github_at (5000 * n))) [1, 2, 3, 4, 5, 6, 7, 8, 9, 10] @
     [Reply Rejected, Tick (github_at 55000)]"

text \<open>A heartbeat, the data of one before its session is added, and engines that hold some.\<close>

definition sample_heartbeat :: heartbeat where
  "sample_heartbeat =
     \<lparr>timestamp = 5000, site = ''github.com'', siteType = Productive, action = Focus,
      coinsChange = 3, tabId = 7, url = ''https://github.com/'',
      hb_sessionId = Some ''session-1''\<rparr>"

definition sample_data :: heartbeat_data where
  "sample_data =
     \<lparr>timestamp = 10000, site = ''github.com'', siteType = Productive, action = Focus,
      coinsChange = 3, tabId = 7, url = ''https://github.com/''\<rparr>"

definition buffering_engine :: engine where
  "buffering_engine = sample_engine\<lparr>heartbeatBuffer := [sample_heartbeat], lastUpdateTime := 5000\<rparr>"

definition nearly_full_engine :: engine where
  "nearly_full_engine = sample_engine\<lparr>heartbeatBuffer := replicate 9 sample_heartbeat\<rparr>"

section \<open>Basic facts\<close>

lemma some_iff: "some p xs \<longleftrightarrow> (\<exists>x\<in>set xs. p x)"
  by (induction xs) auto

lemma str_includes_iff: "str_includes h p \<longleftrightarrow> (\<exists>pre post. h = pre @ p @ post)"
proof -
  have "str_includes h p \<longleftrightarrow> sublist p h"
    by (induction h) (auto simp: sublist_Cons_right)
  then show ?thesis by (simp add: sublist_def)
qed

lemma observedD:
  assumes "observedDomain v = Some d"
  obtains t u h where "active_tab v = Some t" "tab_url t = Some u" "u \<noteq> []"
    "url_hostname v = Some h" "d = replace ''www.'' '''' h"
  using assms by (auto simp: observedDomain_def split: option.splits if_splits)

lemma updateCoins_idle:
  "elapsedTicks v e \<le> 0 \<Longrightarrow> updateCoins v e st = (e, st, [])"
  by (simp add: updateCoins_def elapsedTicks_def Let_def split: option.splits)

lemma updateCoins_productive:
  assumes "isSessionActive e" "active_tab v = Some t" "tab_url t = Some u"
    "observedDomain v = Some d" "observedSiteType v = Some Productive" "0 < elapsedTicks v e"
  shows "updateCoins v e st =
     save_and_report t u d Productive (clock v) (elapsedTicks v e * 3)
       (balance st + elapsedTicks v e * 3) (earnedToday st + elapsedTicks v e * 3) e st"
  using assms
  by (auto simp: updateCoins_def observedDomain_def observedSiteType_def elapsedTicks_def
      balance_def earnedToday_def Let_def split: option.splits if_splits)

lemma updateCoins_distracting:
  assumes "isSessionActive e" "active_tab v = Some t" "tab_url t = Some u"
    "observedDomain v = Some d" "observedSiteType v = Some Distracting" "0 < elapsedTicks v e"
  shows "updateCoins v e st =
     (if balance st > 0 then
        save_and_report t u d Distracting (clock v) (elapsedTicks v e * (- 4))
          (max 0 (balance st + elapsedTicks v e * (- 4))) (earnedToday st) e st
      else (e, st, [BlockSite (tab_id t) d]))"
  using assms
  by (auto simp: updateCoins_def observedDomain_def observedSiteType_def elapsedTicks_def
      balance_def earnedToday_def blockSite_def Let_def split: option.splits if_splits)

lemma save_and_report_eq:
  "save_and_report t u d ty now c cur today e st =
     (e\<lparr>heartbeatBuffer := heartbeatBuffer e @
          [\<lparr>timestamp = now, site = d, siteType = ty,
            action = (if ty = Productive then Focus else Distract),
            coinsChange = c, tabId = tab_id t, url = u, hb_sessionId = sessionId e\<rparr>],
        lastUpdateTime := now\<rparr>,
      st\<lparr>focusCoins := Some cur, todayCoins := Some today\<rparr>,
      (if maxBufferSize \<le> Suc (length (heartbeatBuffer e))
       then [PostHeartbeats (uuid e) (heartbeatBuffer e @
          [\<lparr>timestamp = now, site = d, siteType = ty,
            action = (if ty = Productive then Focus else Distract),
            coinsChange = c, tabId = tab_id t, url = u, hb_sessionId = sessionId e\<rparr>])]
       else []) @ [CoinsUpdated cur c ty d])"
  by (simp add: save_and_report_def addHeartbeat_def syncHeartbeats_send_def Let_def)

lemma updateCoins_balance_nonneg:
  assumes "0 \<le> balance st" "updateCoins v e st = (e', st', fx)"
  shows "0 \<le> balance st'"
  using assms
  by (auto simp: updateCoins_def save_and_report_eq balance_def or_zero_def Let_def
      split: option.splits if_splits)

lemmas sample_defs = sample_engine_def sample_tab_def visit_def youtube_at_def github_at_def
  coins_def new_engine_def

lemmas site_defs = getSiteType_def productiveSites_def distractingSites_def

lemma observed_youtube:
  "active_tab (youtube_at t) = Some (sample_tab ''https://www.youtube.com/watch'')"
  "observedDomain (youtube_at t) = Some ''youtube.com''"
  "observedSiteType (youtube_at t) = Some Distracting"
  by (simp_all add: observedSiteType_def observedDomain_def sample_defs site_defs)

lemma observed_github:
  "active_tab (github_at t) = Some (sample_tab ''https://github.com/'')"
  "observedDomain (github_at t) = Some ''github.com''"
  "observedSiteType (github_at t) = Some Productive"
  by (simp_all add: observedSiteType_def observedDomain_def sample_defs site_defs)

lemma sample_engine_simps:
  "isSessionActive sample_engine" "lastUpdateTime sample_engine = 0"
  "heartbeatBuffer sample_engine = []" "sessionId sample_engine = Some ''session-1''"
  "uuid sample_engine = Some ''uuid-1''"
  by (simp_all add: sample_defs)

lemma sample_store_simps:
  "balance (coins n) = n" "earnedToday (coins n) = 0"
  by (simp_all add: coins_def balance_def earnedToday_def or_zero_def)

lemma elapsedTicks_sample:
  "elapsedTicks (youtube_at t) sample_engine = t div 5000"
  "elapsedTicks (github_at t) sample_engine = t div 5000"
  by (simp_all add: elapsedTicks_def sample_defs coinUpdateInterval_def)

lemma balance_update [simp]:
  "balance (st\<lparr>focusCoins := Some n, todayCoins := m\<rparr>) = n"
  "earnedToday (st\<lparr>focusCoins := n', todayCoins := Some k\<rparr>) = k"
  by (simp_all add: balance_def earnedToday_def or_zero_def)

lemma blocked_append [simp]: "blocked (xs @ ys) = blocked xs @ blocked ys"
  by (induction xs rule: blocked.induct) simp_all

lemma posted_append [simp]: "posted (xs @ ys) = posted xs @ posted ys"
  by (induction xs rule: posted.induct) simp_all

lemma buffering_engine_simps:
  "heartbeatBuffer buffering_engine = [sample_heartbeat]"
  "uuid buffering_engine = Some ''uuid-1''"
  "lastUpdateTime buffering_engine = 5000"
  by (simp_all add: buffering_engine_def sample_defs)

section \<open>C1: balance 2, one distracting interval\<close>

text \<open>
  C1 as stated: with a balance of 2 on a distracting site and one elapsed interval, the
  balance is clamped to 0, no heartbeat is added and the site is blocked with the
  classified domain. At this input the engine does clamp the balance, but it takes the
  branch \<^verbatim>\<open>currentCoins > 0\<close>: the buffer changes and no navigation to the blocking
  page is made. On the example engine each of the claim's last two parts fails.
\<close>

theorem C1_counterexample:
  "heartbeatBuffer (fst (updateCoins (youtube_at 5000) sample_engine (coins 2))) \<noteq>
     heartbeatBuffer sample_engine \<and>
   blocked (snd (snd (updateCoins (youtube_at 5000) sample_engine (coins 2)))) \<noteq>
     [(7, ''youtube.com'')]"
  by (simp add: updateCoins_def sample_defs site_defs or_zero_def coinUpdateInterval_def
      save_and_report_eq maxBufferSize_def Let_def)

text \<open>
  C1 (amended): with a balance of 2 on a distracting site and exactly one elapsed
  interval, the balance becomes 0, exactly one heartbeat is appended, with
  \<^verbatim>\<open>coinsChange = -4\<close> and action \<^verbatim>\<open>distract\<close> for the classified domain, and
  \<^verbatim>\<open>blockSite\<close> is not called.
\<close>

theorem C1_clamp_emits_heartbeat:
  assumes "isSessionActive e" and "active_tab v = Some t" and "tab_url t = Some u"
    and "observedDomain v = Some d" and "observedSiteType v = Some Distracting"
    and "elapsedTicks v e = 1" and "balance st = 2"
  shows "case updateCoins v e st of (e', st', fx) \<Rightarrow>
           balance st' = 0 \<and>
           heartbeatBuffer e' = heartbeatBuffer e @
             [\<lparr>timestamp = clock v, site = d, siteType = Distracting, action = Distract,
               coinsChange = - 4, tabId = tab_id t, url = u, hb_sessionId = sessionId e\<rparr>] \<and>
           blocked fx = []"
  using assms by (simp add: updateCoins_distracting save_and_report_eq)

text \<open>The amended C1 on the example engine visiting YouTube five seconds after the last update.\<close>

theorem C1_clamp_emits_heartbeat_witness:
  "isSessionActive sample_engine \<and>
   active_tab (youtube_at 5000) = Some (sample_tab ''https://www.youtube.com/watch'') \<and>
   tab_url (sample_tab ''https://www.youtube.com/watch'') = Some ''https://www.youtube.com/watch'' \<and>
   observedDomain (youtube_at 5000) = Some ''youtube.com'' \<and>
   observedSiteType (youtube_at 5000) = Some Distracting \<and>
   elapsedTicks (youtube_at 5000) sample_engine = 1 \<and>
   balance (coins 2) = 2 \<and>
   (case updateCoins (youtube_at 5000) sample_engine (coins 2) of (e', st', fx) \<Rightarrow>
      balance st' = 0 \<and>
      heartbeatBuffer e' =
        [\<lparr>timestamp = 5000, site = ''youtube.com'', siteType = Distracting, action = Distract,
          coinsChange = - 4, tabId = 7, url = ''https://www.youtube.com/watch'',
          hb_sessionId = Some ''session-1''\<rparr>] \<and>
      blocked fx = [])"
proof -
  have h: "tab_url (sample_tab ''https://www.youtube.com/watch'') = Some ''https://www.youtube.com/watch''"
    "elapsedTicks (youtube_at 5000) sample_engine = 1"
    "clock (youtube_at 5000) = 5000" "tab_id (sample_tab ''https://www.youtube.com/watch'') = 7"
    by (simp_all add: elapsedTicks_sample) (simp_all add: sample_defs)
  show ?thesis
    using C1_clamp_emits_heartbeat [OF sample_engine_simps(1) observed_youtube(1) h(1)
        observed_youtube(2) observed_youtube(3) h(2) sample_store_simps(1)]
    by (simp add: h observed_youtube sample_engine_simps sample_store_simps split: prod.splits)
qed

section \<open>C2: the balance is never negative\<close>

lemma step_balance_nonneg:
  assumes "0 \<le> balance (snd s)" shows "0 \<le> balance (snd (fst (step ev s)))"
proof (cases s)
  case (Pair e st)
  show ?thesis
  proof (cases ev)
    case (Tick v)
    obtain e' st' fx where r: "updateCoins v e st = (e', st', fx)" by (cases "updateCoins v e st") auto
    with updateCoins_balance_nonneg[OF _ r] assms Pair Tick show ?thesis by simp
  next
    case (TabChange t0 v)
    obtain e' st' fx where r: "handleTabChange t0 v e st = (e', st', fx)"
      by (cases "handleTabChange t0 v e st") auto
    then have "0 \<le> balance st'" using assms Pair
      by (auto simp: handleTabChange_def split: if_splits dest: updateCoins_balance_nonneg[rotated])
    with r Pair TabChange show ?thesis by simp
  next
    case SyncTimer
    with assms Pair show ?thesis by simp
  next
    case (Reply r)
    with assms Pair show ?thesis by simp
  qed
qed

lemma run_balance_nonneg:
  "0 \<le> balance (snd s) \<Longrightarrow> 0 \<le> balance (snd (fst (run evs s)))"
proof (induction evs arbitrary: s)
  case Nil
  then show ?case by simp
next
  case (Cons ev evs)
  from step_balance_nonneg[OF Cons.prems, of ev] Cons.IH[of "fst (step ev s)"]
  show ?case by (auto split: prod.splits)
qed

text \<open>
  C2: along every sequence of events (coin timer, tab change, sync timer, reply) that
  starts from a non-negative balance, the balance stays non-negative; and an evaluation on
  a distracting site whose change \<open>-4 * elapsedTicks\<close> would take a non-negative balance
  below zero leaves the balance at exactly zero.
\<close>

theorem C2_balance_never_negative:
  "(\<forall>evs e st. 0 \<le> balance st \<longrightarrow> 0 \<le> balance (snd (fst (run evs (e, st))))) \<and>
   (\<forall>v e st. isSessionActive e \<and> observedSiteType v = Some Distracting \<and>
        0 < elapsedTicks v e \<and> 0 \<le> balance st \<and> balance st + elapsedTicks v e * (- 4) < 0
      \<longrightarrow> balance (fst (snd (updateCoins v e st))) = 0)"
proof (intro conjI allI impI)
  fix evs e st assume "0 \<le> balance st"
  then show "0 \<le> balance (snd (fst (run evs (e, st))))"
    using run_balance_nonneg[of "(e, st)" evs] by simp
next
  fix v e st
  assume a: "isSessionActive e \<and> observedSiteType v = Some Distracting \<and>
        0 < elapsedTicks v e \<and> 0 \<le> balance st \<and> balance st + elapsedTicks v e * (- 4) < 0"
  then obtain d where d: "observedDomain v = Some d" by (auto simp: observedSiteType_def)
  then obtain t u where "active_tab v = Some t" "tab_url t = Some u" by (auto elim: observedD)
  with a d show "balance (fst (snd (updateCoins v e st))) = 0"
    by (simp add: updateCoins_distracting save_and_report_eq)
qed

text \<open>
  C2 on the example engine: two evaluations on YouTube starting from a balance of 2, and
  the single evaluation that clamps.
\<close>

theorem C2_balance_never_negative_witness:
  "0 \<le> balance (coins 2) \<and>
   0 \<le> balance (snd (fst (run [Tick (youtube_at 5000), Tick (youtube_at 10000)]
                              (sample_engine, coins 2)))) \<and>
   isSessionActive sample_engine \<and> observedSiteType (youtube_at 5000) = Some Distracting \<and>
   0 < elapsedTicks (youtube_at 5000) sample_engine \<and>
   balance (coins 2) + elapsedTicks (youtube_at 5000) sample_engine * (- 4) < 0 \<and>
   balance (fst (snd (updateCoins (youtube_at 5000) sample_engine (coins 2)))) = 0"
proof -
  have h: "0 \<le> balance (coins 2)" "isSessionActive sample_engine"
    "observedSiteType (youtube_at 5000) = Some Distracting"
    "0 < elapsedTicks (youtube_at 5000) sample_engine"
    "balance (coins 2) + elapsedTicks (youtube_at 5000) sample_engine * (- 4) < 0"
    by (simp_all add: sample_store_simps sample_engine_simps observed_youtube elapsedTicks_sample)
  from C2_balance_never_negative have
    "0 \<le> balance (snd (fst (run [Tick (youtube_at 5000), Tick (youtube_at 10000)]
                              (sample_engine, coins 2))))"
    "balance (fst (snd (updateCoins (youtube_at 5000) sample_engine (coins 2)))) = 0"
    using h by blast+
  with h show ?thesis by simp
qed

section \<open>C3: blocking at a balance of zero\<close>

text \<open>
  C3: an evaluation that sees a distracting site, at least one elapsed interval and a
  balance of exactly 0 calls \<^verbatim>\<open>blockSite\<close> with the tab and the classified domain
  and returns: the engine (its heartbeat buffer and \<^verbatim>\<open>lastUpdateTime\<close> included) and
  the store (balance and today's coins) are unchanged, and nothing else is emitted.
\<close>

theorem C3_block_at_zero_balance:
  assumes "isSessionActive e" and "active_tab v = Some t" and "observedDomain v = Some d"
    and "observedSiteType v = Some Distracting" and "1 \<le> elapsedTicks v e"
    and "balance st = 0"
  shows "updateCoins v e st = (e, st, [BlockSite (tab_id t) d])"
proof -
  from assms(3) obtain t' u where "active_tab v = Some t'" "tab_url t' = Some u"
    by (auto elim: observedD)
  with assms show ?thesis by (simp add: updateCoins_distracting)
qed

text \<open>C3 on the example engine visiting YouTube with no coins left.\<close>

theorem C3_block_at_zero_balance_witness:
  "isSessionActive sample_engine \<and>
   active_tab (youtube_at 5000) = Some (sample_tab ''https://www.youtube.com/watch'') \<and>
   observedDomain (youtube_at 5000) = Some ''youtube.com'' \<and>
   observedSiteType (youtube_at 5000) = Some Distracting \<and>
   1 \<le> elapsedTicks (youtube_at 5000) sample_engine \<and>
   balance (coins 0) = 0 \<and>
   updateCoins (youtube_at 5000) sample_engine (coins 0) =
     (sample_engine, coins 0, [BlockSite 7 ''youtube.com''])"
proof -
  have h: "1 \<le> elapsedTicks (youtube_at 5000) sample_engine"
    "tab_id (sample_tab ''https://www.youtube.com/watch'') = 7"
    by (simp_all add: elapsedTicks_sample sample_tab_def)
  show ?thesis
    using C3_block_at_zero_balance [OF sample_engine_simps(1) observed_youtube(1)
        observed_youtube(2) observed_youtube(3) h(1) sample_store_simps(1)]
    by (simp add: h observed_youtube sample_engine_simps sample_store_simps)
qed

section \<open>C4: flushing the buffer\<close>

text \<open>
  C4: \<^verbatim>\<open>syncHeartbeats\<close> on an empty buffer does nothing. On a non-empty buffer it
  posts the whole buffer as one batch; afterwards the buffer is empty exactly when the
  reply reports success (\<open>Json True\<close>), and on every other reply (a rejected call, a
  body that reports no success) the engine is left as it was.
\<close>

theorem C4_flush:
  "(heartbeatBuffer e = [] \<longrightarrow> syncHeartbeats r e = (e, [])) \<and>
   (heartbeatBuffer e \<noteq> [] \<longrightarrow>
      snd (syncHeartbeats r e) = [PostHeartbeats (uuid e) (heartbeatBuffer e)] \<and>
      (heartbeatBuffer (fst (syncHeartbeats r e)) = [] \<longleftrightarrow> r = Json True) \<and>
      (r \<noteq> Json True \<longrightarrow> fst (syncHeartbeats r e) = e))"
  by (cases r) (auto simp: syncHeartbeats_def syncHeartbeats_send_def syncHeartbeats_settle_def)

text \<open>C4 on an empty buffer, and on a buffer of one record with a failed and a confirmed post.\<close>

theorem C4_flush_witness:
  "heartbeatBuffer sample_engine = [] \<and>
   syncHeartbeats (Json True) sample_engine = (sample_engine, []) \<and>
   heartbeatBuffer buffering_engine \<noteq> [] \<and> Rejected \<noteq> Json True \<and>
   syncHeartbeats Rejected buffering_engine =
     (buffering_engine, [PostHeartbeats (Some ''uuid-1'') [sample_heartbeat]]) \<and>
   snd (syncHeartbeats (Json True) buffering_engine) =
     [PostHeartbeats (Some ''uuid-1'') [sample_heartbeat]] \<and>
   heartbeatBuffer (fst (syncHeartbeats (Json True) buffering_engine)) = []"
proof -
  have ne: "heartbeatBuffer buffering_engine \<noteq> []" and em: "heartbeatBuffer sample_engine = []"
    by (simp_all add: buffering_engine_simps sample_engine_simps)
  from C4_flush [of sample_engine "Json True"] em
  have a: "syncHeartbeats (Json True) sample_engine = (sample_engine, [])" by blast
  from C4_flush [of buffering_engine Rejected] ne
  have "snd (syncHeartbeats Rejected buffering_engine) =
          [PostHeartbeats (uuid buffering_engine) (heartbeatBuffer buffering_engine)]"
    and "fst (syncHeartbeats Rejected buffering_engine) = buffering_engine"
    by simp_all
  then have b: "syncHeartbeats Rejected buffering_engine =
     (buffering_engine, [PostHeartbeats (Some ''uuid-1'') [sample_heartbeat]])"
    by (simp add: prod_eq_iff buffering_engine_simps)
  from C4_flush [of buffering_engine "Json True"] ne
  have c: "snd (syncHeartbeats (Json True) buffering_engine) =
          [PostHeartbeats (Some ''uuid-1'') [sample_heartbeat]]"
    and d: "heartbeatBuffer (fst (syncHeartbeats (Json True) buffering_engine)) = []"
    by (simp_all add: buffering_engine_simps)
  from a b c d ne em show ?thesis by simp
qed

lemma syncHeartbeats_settle_cases:
  "syncHeartbeats_settle r e = (if r = Json True then e\<lparr>heartbeatBuffer := []\<rparr> else e)"
  by (cases r) (auto simp: syncHeartbeats_settle_def)

section \<open>C5: the size of the buffer\<close>

text \<open>
  C5 as stated: the buffer never holds more than \<^verbatim>\<open>maxBufferSize\<close> records. After
  ten evaluations the buffer holds ten records and is posted; the post fails, so the ten
  records stay, and the next evaluation appends an eleventh.
\<close>

theorem C5_counterexample:
  "\<not> length (heartbeatBuffer (fst (fst (run failed_flush_run (sample_engine, coins 10)))))
      \<le> maxBufferSize"
  by code_simp

text \<open>
  C5 (amended): every append adds exactly one record to the buffer and nothing bounds its
  length; an append that brings the length to \<^verbatim>\<open>maxBufferSize\<close> or more triggers
  exactly one flush attempt, which posts the whole buffer, and an append that leaves it
  shorter triggers none. A confirmed reply to the attempt empties the buffer; any other
  reply leaves every record in place.
\<close>

theorem C5_append_triggers_one_flush:
  "case addHeartbeat d e of (e', fx) \<Rightarrow>
     length (heartbeatBuffer e') = length (heartbeatBuffer e) + 1 \<and>
     posted fx = (if maxBufferSize \<le> length (heartbeatBuffer e')
                  then [heartbeatBuffer e'] else []) \<and>
     heartbeatBuffer (syncHeartbeats_settle (Json True) e') = [] \<and>
     (\<forall>r. r \<noteq> Json True \<longrightarrow> syncHeartbeats_settle r e' = e')"
  by (simp add: addHeartbeat_def syncHeartbeats_send_def syncHeartbeats_settle_cases Let_def)

text \<open>
  The amended C5 on a buffer of one record (no flush) and on a buffer of nine (the tenth
  record triggers the one flush).
\<close>

theorem C5_append_triggers_one_flush_witness:
  "(case addHeartbeat sample_data buffering_engine of (e', fx) \<Rightarrow>
     length (heartbeatBuffer e') = 2 \<and> posted fx = [] \<and>
     heartbeatBuffer (syncHeartbeats_settle (Json True) e') = [] \<and>
     syncHeartbeats_settle Rejected e' = e') \<and>
   (case addHeartbeat sample_data nearly_full_engine of (e', fx) \<Rightarrow>
     length (heartbeatBuffer e') = 10 \<and> posted fx = [heartbeatBuffer e'])"
  using C5_append_triggers_one_flush [where d = sample_data and e = buffering_engine]
    C5_append_triggers_one_flush [where d = sample_data and e = nearly_full_engine]
  by (auto simp: buffering_engine_simps nearly_full_engine_def maxBufferSize_def
      split: prod.splits)

section \<open>C6: classification\<close>

text \<open>
  C6: \<^verbatim>\<open>getSiteType\<close> answers productive when some entry of the productive list
  occurs in the hostname as a substring at any position, otherwise distracting when some
  entry of the distracting list does, otherwise neutral; the productive list is looked at
  first, so a hostname matching both lists is productive.
\<close>

theorem C6_getSiteType:
  "getSiteType P D H =
     (if \<exists>p\<in>set P. \<exists>pre post. H = pre @ p @ post then Productive
      else if \<exists>d\<in>set D. \<exists>pre post. H = pre @ d @ post then Distracting
      else Neutral)"
  by (simp add: getSiteType_def some_iff str_includes_iff)

text \<open>C6 on a hostname that matches an entry of each list: the productive list wins.\<close>

theorem C6_getSiteType_witness:
  "(\<exists>p\<in>set [''github.com'']. \<exists>pre post. ''gist.github.com'' = pre @ p @ post) \<and>
   (\<exists>d\<in>set [''hub.com'']. \<exists>pre post. ''gist.github.com'' = pre @ d @ post) \<and>
   getSiteType [''github.com''] [''hub.com''] ''gist.github.com'' = Productive"
proof -
  have "''gist.github.com'' = ''gist.'' @ ''github.com'' @ ''''" by simp
  then have p: "\<exists>p\<in>set [''github.com'']. \<exists>pre post. ''gist.github.com'' = pre @ p @ post"
    by (metis list.set_intros(1))
  have "''gist.github.com'' = ''gist.git'' @ ''hub.com'' @ ''''" by simp
  then have d: "\<exists>d\<in>set [''hub.com'']. \<exists>pre post. ''gist.github.com'' = pre @ d @ post"
    by (metis list.set_intros(1))
  from p have "getSiteType [''github.com''] [''hub.com''] ''gist.github.com'' = Productive"
    by (simp only: C6_getSiteType if_True)
  with p d show ?thesis by blast
qed

section \<open>C7: normalising the hostname\<close>

lemma replace_leading:
  "prefix pat h \<Longrightarrow> replace pat rep h = rep @ drop (length pat) h"
  by (cases h) auto

lemma replace_absent:
  "\<not> sublist pat h \<Longrightarrow> replace pat rep h = h"
  by (induction h) (auto simp: sublist_Cons_right)

text \<open>
  C7 claims that the classified domain is the hostname without its leading
  \<^verbatim>\<open>www.\<close>, the rest intact. \<^verbatim>\<open>replace('www.', '')\<close> removes the first
  \<^verbatim>\<open>www.\<close> wherever it stands: a hostname with no leading \<^verbatim>\<open>www.\<close> but one
  inside loses part of its middle, and the result can even match a list that the
  hostname itself does not match.
\<close>

theorem C7_www_inside_hostname:
  "replace ''www.'' '''' ''dev.www.example.com'' = ''dev.example.com'' \<and>
   observedDomain (visit ''https://dev.www.example.com/'' ''dev.www.example.com'' t)
     = Some ''dev.example.com'' \<and>
   observedSiteType (visit ''https://gitwww.hub.com/'' ''gitwww.hub.com'' t) = Some Productive \<and>
   getSiteType productiveSites distractingSites ''gitwww.hub.com'' = Neutral \<and>
   map site (heartbeatBuffer (fst (updateCoins
       (visit ''https://dev.www.github.com/'' ''dev.www.github.com'' 5000)
       sample_engine (coins 10)))) = [''dev.github.com''] \<and>
   map site (heartbeatBuffer (fst (updateCoins
       (visit ''https://gitwww.hub.com/'' ''gitwww.hub.com'' 5000)
       sample_engine (coins 10)))) = [''github.com'']"
  by (simp add: observedDomain_def observedSiteType_def site_defs updateCoins_def sample_defs
      or_zero_def coinUpdateInterval_def save_and_report_eq maxBufferSize_def Let_def)

section \<open>C8: a second evaluation within one interval\<close>

text \<open>
  C8: when an evaluation has moved \<^verbatim>\<open>lastUpdateTime\<close> to its own clock reading, an
  evaluation that follows less than one interval later changes nothing: the balance and
  today's coins keep their values, no heartbeat is appended and nothing is emitted.
\<close>

theorem C8_second_evaluate_within_interval:
  assumes "updateCoins v1 e st = (e1, st1, fx1)" and "lastUpdateTime e1 = clock v1"
    and "clock v2 - clock v1 < coinUpdateInterval"
  shows "updateCoins v2 e1 st1 = (e1, st1, [])"
proof -
  from assms(2,3) have "elapsedTicks v2 e1 \<le> 0"
    by (simp add: elapsedTicks_def coinUpdateInterval_def)
  then show ?thesis by (rule updateCoins_idle)
qed

text \<open>C8 on the example engine: an evaluation at 5000 ms that earns 3 coins, then one at 9999 ms.\<close>

theorem C8_second_evaluate_within_interval_witness:
  "updateCoins (github_at 5000) sample_engine (coins 10) =
     (buffering_engine, \<lparr>focusCoins = Some 13, todayCoins = Some 3\<rparr>,
      [CoinsUpdated 13 3 Productive ''github.com'']) \<and>
   lastUpdateTime buffering_engine = clock (github_at 5000) \<and>
   clock (github_at 9999) - clock (github_at 5000) < coinUpdateInterval \<and>
   updateCoins (github_at 9999) buffering_engine \<lparr>focusCoins = Some 13, todayCoins = Some 3\<rparr> =
     (buffering_engine, \<lparr>focusCoins = Some 13, todayCoins = Some 3\<rparr>, [])"
proof -
  have a: "updateCoins (github_at 5000) sample_engine (coins 10) =
     (buffering_engine, \<lparr>focusCoins = Some 13, todayCoins = Some 3\<rparr>,
      [CoinsUpdated 13 3 Productive ''github.com''])"
    by (simp add: updateCoins_def sample_defs site_defs or_zero_def coinUpdateInterval_def
        save_and_report_eq maxBufferSize_def buffering_engine_def sample_heartbeat_def Let_def)
  have b: "lastUpdateTime buffering_engine = clock (github_at 5000)"
    and c: "clock (github_at 9999) - clock (github_at 5000) < coinUpdateInterval"
    by (simp_all add: buffering_engine_simps sample_defs coinUpdateInterval_def)
  from C8_second_evaluate_within_interval [OF a b c] a b c show ?thesis by simp
qed

section \<open>C9: balance 10, three productive intervals\<close>

text \<open>
  C9: with a balance of 10 on a productive site and three elapsed intervals, the balance
  becomes 19, today's coins grow by 9, and exactly one heartbeat is appended, with
  \<^verbatim>\<open>coinsChange = 9\<close> and action \<^verbatim>\<open>focus\<close>.
\<close>

theorem C9_three_productive_intervals:
  assumes "isSessionActive e" and "active_tab v = Some t" and "tab_url t = Some u"
    and "observedDomain v = Some d" and "observedSiteType v = Some Productive"
    and "elapsedTicks v e = 3" and "balance st = 10"
  shows "case updateCoins v e st of (e', st', fx) \<Rightarrow>
           balance st' = 19 \<and> earnedToday st' = earnedToday st + 9 \<and>
           heartbeatBuffer e' = heartbeatBuffer e @
             [\<lparr>timestamp = clock v, site = d, siteType = Productive, action = Focus,
               coinsChange = 9, tabId = tab_id t, url = u, hb_sessionId = sessionId e\<rparr>]"
  using assms by (simp add: updateCoins_productive save_and_report_eq)

text \<open>C9 on the example engine visiting GitHub fifteen seconds after the last update.\<close>

theorem C9_three_productive_intervals_witness:
  "isSessionActive sample_engine \<and>
   active_tab (github_at 15000) = Some (sample_tab ''https://github.com/'') \<and>
   tab_url (sample_tab ''https://github.com/'') = Some ''https://github.com/'' \<and>
   observedDomain (github_at 15000) = Some ''github.com'' \<and>
   observedSiteType (github_at 15000) = Some Productive \<and>
   elapsedTicks (github_at 15000) sample_engine = 3 \<and>
   balance (coins 10) = 10 \<and>
   (case updateCoins (github_at 15000) sample_engine (coins 10) of (e', st', fx) \<Rightarrow>
      balance st' = 19 \<and> earnedToday st' = 9 \<and>
      heartbeatBuffer e' =
        [\<lparr>timestamp = 15000, site = ''github.com'', siteType = Productive, action = Focus,
          coinsChange = 9, tabId = 7, url = ''https://github.com/'',
          hb_sessionId = Some ''session-1''\<rparr>])"
proof -
  have h: "tab_url (sample_tab ''https://github.com/'') = Some ''https://github.com/''"
    "elapsedTicks (github_at 15000) sample_engine = 3"
    "clock (github_at 15000) = 15000" "tab_id (sample_tab ''https://github.com/'') = 7"
    by (simp_all add: elapsedTicks_sample) (simp_all add: sample_defs)
  show ?thesis
    using C9_three_productive_intervals [OF sample_engine_simps(1) observed_github(1) h(1)
        observed_github(2) observed_github(3) h(2) sample_store_simps(1)]
    by (simp add: h observed_github sample_engine_simps sample_store_simps split: prod.splits)
qed

section \<open>C10: the heartbeat of a clamped change\<close>

text \<open>
  C10: on a distracting site with a balance above 0 but below \<open>4 * elapsedTicks\<close>, the
  appended heartbeat carries the full change \<open>-4 * elapsedTicks\<close> while the balance
  only falls to 0, so the buffered \<^verbatim>\<open>coinsChange\<close> values add up to strictly less
  than the change of the local balance.
\<close>

theorem C10_heartbeat_carries_unclamped_delta:
  assumes "isSessionActive e" and "active_tab v = Some t" and "tab_url t = Some u"
    and "observedDomain v = Some d" and "observedSiteType v = Some Distracting"
    and "0 < balance st" and "balance st < 4 * elapsedTicks v e"
  shows "case updateCoins v e st of (e', st', fx) \<Rightarrow>
           heartbeatBuffer e' = heartbeatBuffer e @
             [\<lparr>timestamp = clock v, site = d, siteType = Distracting, action = Distract,
               coinsChange = - 4 * elapsedTicks v e, tabId = tab_id t, url = u,
               hb_sessionId = sessionId e\<rparr>] \<and>
           balance st' - balance st = - balance st \<and>
           sum_list (map coinsChange (heartbeatBuffer e'))
             - sum_list (map coinsChange (heartbeatBuffer e)) < balance st' - balance st"
proof -
  from assms(6,7) have "0 < elapsedTicks v e" by simp
  with assms show ?thesis by (simp add: updateCoins_distracting save_and_report_eq)
qed

text \<open>C10 on the example engine: balance 3, two intervals on YouTube, recorded change -8.\<close>

theorem C10_heartbeat_carries_unclamped_delta_witness:
  "isSessionActive sample_engine \<and>
   active_tab (youtube_at 10000) = Some (sample_tab ''https://www.youtube.com/watch'') \<and>
   tab_url (sample_tab ''https://www.youtube.com/watch'') = Some ''https://www.youtube.com/watch'' \<and>
   observedDomain (youtube_at 10000) = Some ''youtube.com'' \<and>
   observedSiteType (youtube_at 10000) = Some Distracting \<and>
   0 < balance (coins 3) \<and> balance (coins 3) < 4 * elapsedTicks (youtube_at 10000) sample_engine \<and>
   (case updateCoins (youtube_at 10000) sample_engine (coins 3) of (e', st', fx) \<Rightarrow>
      map coinsChange (heartbeatBuffer e') = [- 8] \<and> balance st' - balance (coins 3) = - 3 \<and>
      sum_list (map coinsChange (heartbeatBuffer e'))
        - sum_list (map coinsChange (heartbeatBuffer sample_engine))
        < balance st' - balance (coins 3))"
proof -
  have h: "tab_url (sample_tab ''https://www.youtube.com/watch'') = Some ''https://www.youtube.com/watch''"
    "0 < balance (coins 3)" "balance (coins 3) < 4 * elapsedTicks (youtube_at 10000) sample_engine"
    "elapsedTicks (youtube_at 10000) sample_engine = 2"
    by (simp_all add: elapsedTicks_sample sample_store_simps) (simp_all add: sample_defs)
  show ?thesis
    using C10_heartbeat_carries_unclamped_delta [OF sample_engine_simps(1) observed_youtube(1) h(1)
        observed_youtube(2) observed_youtube(3) h(2) h(3)]
    by (simp add: h observed_youtube sample_engine_simps sample_store_simps split: prod.splits)
qed

end
